theory Spec2Isabelle
  imports Main "HOL-Library.AList"
begin

section \<open>The signaling server of server.js\<close>

text \<open>
  The server (\<open>server.js\<close>, the second half of \<open>src/public/admin.js\<close>) relays WebRTC
  signaling messages between one presenter (role \<open>admin\<close>) and its viewers (role
  \<open>student\<close>). Its state is the \<open>Session\<close> collection of the store, the two
  properties \<open>role\<close> and \<open>unique_id\<close> that the handlers attach to each connected
  socket, and the rooms of the socket.io adapter. Every handler is modelled as one atomic
  step from state to state that also yields the acknowledgement passed to the callback
  and the list of emits it performs, in the order of the source.
\<close>

subsection \<open>Payloads\<close>

text \<open>
  A payload is a JavaScript object with string-valued properties, kept in insertion
  order. A property that is absent reads as \<open>undefined\<close> (\<open>None\<close>); of the strings
  only the empty one is falsy.
\<close>

type_synonym payload = "(string \<times> string) list"

definition payload_get :: "payload \<Rightarrow> string \<Rightarrow> string option" where
  "payload_get p k = map_of p k"

definition truthy :: "string option \<Rightarrow> bool" where
  "truthy v = (case v of None \<Rightarrow> False | Some s \<Rightarrow> s \<noteq> [])"

text \<open>The value of a property where it is truthy: what a branch guarded by
  \<^verbatim>\<open>if (x)\<close> may use.\<close>

definition truthy_value :: "string option \<Rightarrow> string option" where
  "truthy_value v = (if truthy v then v else None)"

text \<open>\<^verbatim>\<open>{ ...payload, from: socket.id }\<close>: the property \<open>from\<close> is overwritten where the
  payload has it and appended otherwise.\<close>

definition stamp_from :: "string \<Rightarrow> payload \<Rightarrow> payload" where
  "stamp_from c p = AList.update ''from'' c p"

subsection \<open>State\<close>

datatype role = admin | student

text \<open>Modelled from the spec: the schema \<open>models/Session\<close> is not among the sources; a
  session record holds the owner-role marker, the share URL and the active flag, which
  defaults to true on creation. The collection is keyed by \<open>unique_id\<close>.\<close>

record session =
  owner_type :: string
  userurl :: string
  active :: bool

record socket =
  role :: "role option"
  unique_id :: "string option"

record server =
  sessions :: "string \<rightharpoonup> session"
  sockets :: "string \<rightharpoonup> socket"
  rooms :: "string \<Rightarrow> string set"

definition init :: server where
  "init = \<lparr>sessions = Map.empty, sockets = Map.empty, rooms = (\<lambda>r. {})\<rparr>"

text \<open>One call of \<open>emit\<close>: the sockets it reaches, the event name and the argument.\<close>

record emit =
  recipients :: "string set"
  event :: string
  args :: payload

datatype ack = Ack_ok "string option" | Ack_error string

subsection \<open>The store\<close>

text \<open>Every call to the store may throw; the handlers below take a flag \<open>db\<close> that says
  whether their one store call returns (\<open>True\<close>) or throws (\<open>False\<close>).\<close>

definition findOne :: "(string \<rightharpoonup> session) \<Rightarrow> string \<Rightarrow> session option" where
  "findOne coll u = coll u"

definition findOne_active :: "(string \<rightharpoonup> session) \<Rightarrow> string \<Rightarrow> session option" where
  "findOne_active coll u =
     (case coll u of None \<Rightarrow> None | Some s \<Rightarrow> if active s then Some s else None)"

definition findOneAndUpdate_inactive :: "(string \<rightharpoonup> session) \<Rightarrow> string \<Rightarrow> (string \<rightharpoonup> session)" where
  "findOneAndUpdate_inactive coll u =
     (case coll u of None \<Rightarrow> coll | Some s \<Rightarrow> coll(u \<mapsto> s\<lparr>active := False\<rparr>))"

subsection \<open>The channel: rooms of socket.io\<close>

text \<open>
  A room is a name with the set of socket ids in it. A socket is put into the room named
  by its own id when it connects, which is what makes \<open>io.to(socketId)\<close> reach one
  socket. \<open>io.to(r)\<close> reaches every socket in room \<open>r\<close>, \<open>socket.to(r)\<close> every socket
  in it but the sender.
\<close>

definition io_to :: "server \<Rightarrow> string \<Rightarrow> string set" where
  "io_to st r = rooms st r"

definition socket_to :: "server \<Rightarrow> string \<Rightarrow> string \<Rightarrow> string set" where
  "socket_to st c r = rooms st r - {c}"

definition socket_join :: "string \<Rightarrow> string \<Rightarrow> server \<Rightarrow> server" where
  "socket_join c r st = st\<lparr>rooms := (rooms st)(r := insert c (rooms st r))\<rparr>"

definition socket_leave :: "string \<Rightarrow> string \<Rightarrow> server \<Rightarrow> server" where
  "socket_leave c r st = st\<lparr>rooms := (rooms st)(r := rooms st r - {c})\<rparr>"

definition fetchSockets :: "server \<Rightarrow> string \<Rightarrow> string set" where
  "fetchSockets st r = rooms st r"

definition peers_leave :: "string set \<Rightarrow> string \<Rightarrow> server \<Rightarrow> server" where
  "peers_leave peers r st = st\<lparr>rooms := (rooms st)(r := rooms st r - peers)\<rparr>"

definition leaveAll :: "string \<Rightarrow> server \<Rightarrow> server" where
  "leaveAll c st = st\<lparr>rooms := (\<lambda>r. rooms st r - {c})\<rparr>"

definition set_props :: "string \<Rightarrow> socket \<Rightarrow> server \<Rightarrow> server" where
  "set_props c sock st = st\<lparr>sockets := (sockets st)(c \<mapsto> sock)\<rparr>"

definition connection :: "string \<Rightarrow> server \<Rightarrow> server" where
  "connection c st =
     socket_join c c (set_props c \<lparr>role = None, unique_id = None\<rparr> st)"

subsection \<open>POST /api/session\<close>

datatype http_response = Json string string | Status_500 string

definition api_session :: "string \<Rightarrow> string \<Rightarrow> bool \<Rightarrow> server \<Rightarrow> server \<times> http_response" where
  "api_session uuid host db st =
     (let userurl = host @ ''/session/'' @ uuid in
      if db then
        (st\<lparr>sessions := (sessions st)(uuid \<mapsto>
             \<lparr>owner_type = ''admin'', userurl = userurl, active = True\<rparr>)\<rparr>,
         Json uuid userurl)
      else (st, Status_500 ''Unable to create session, please try again.''))"

subsection \<open>The socket handlers\<close>

text \<open>
  Each handler takes the id \<open>c\<close> of the socket it is registered on; those that read
  \<open>socket.role\<close> or \<open>socket.unique_id\<close> take the properties \<open>sock\<close> of that socket
  too. \<open>admin-join\<close> and \<open>student-join\<close> differ in the filter of the lookup, the role
  they set and the notification of the room.
\<close>

definition admin_join :: "string \<Rightarrow> payload \<Rightarrow> bool \<Rightarrow> server \<Rightarrow> server \<times> ack \<times> emit list" where
  "admin_join c data db st =
     (case truthy_value (payload_get data ''unique_id'') of
        None \<Rightarrow> (st, Ack_error ''Missing session id.'', [])
      | Some u \<Rightarrow>
          if \<not> db then (st, Ack_error ''Unable to join session.'', [])
          else (case findOne (sessions st) u of
                  None \<Rightarrow> (st, Ack_error ''Session not found.'', [])
                | Some _ \<Rightarrow>
                    (set_props c \<lparr>role = Some admin, unique_id = Some u\<rparr> (socket_join c u st),
                     Ack_ok (Some c), [])))"

definition student_join :: "string \<Rightarrow> payload \<Rightarrow> bool \<Rightarrow> server \<Rightarrow> server \<times> ack \<times> emit list" where
  "student_join c data db st =
     (case truthy_value (payload_get data ''unique_id'') of
        None \<Rightarrow> (st, Ack_error ''Missing session id.'', [])
      | Some u \<Rightarrow>
          if \<not> db then (st, Ack_error ''Unable to join session.'', [])
          else (case findOne_active (sessions st) u of
                  None \<Rightarrow> (st, Ack_error ''Session not found or inactive.'', [])
                | Some _ \<Rightarrow>
                    (let st1 = set_props c \<lparr>role = Some student, unique_id = Some u\<rparr>
                                 (socket_join c u st)
                     in (st1, Ack_ok (Some c),
                         [\<lparr>recipients = socket_to st1 c u, event = ''student-connected'',
                           args = [(''studentSocketId'', c)]\<rparr>]))))"

text \<open>\<open>offer\<close> and \<open>answer\<close>: \<^verbatim>\<open>io.to(to).emit(..., { ...payload, from: socket.id })\<close>
  unless \<open>to\<close> is falsy.\<close>

definition offer :: "string \<Rightarrow> payload \<Rightarrow> server \<Rightarrow> server \<times> ack \<times> emit list" where
  "offer c p st =
     (case truthy_value (payload_get p ''to'') of
        None \<Rightarrow> (st, Ack_error ''Missing target socket id.'', [])
      | Some t \<Rightarrow>
          (st, Ack_ok None,
           [\<lparr>recipients = io_to st t, event = ''offer'', args = stamp_from c p\<rparr>]))"

definition answer :: "string \<Rightarrow> payload \<Rightarrow> server \<Rightarrow> server \<times> ack \<times> emit list" where
  "answer c p st =
     (case truthy_value (payload_get p ''to'') of
        None \<Rightarrow> (st, Ack_error ''Missing target socket id.'', [])
      | Some t \<Rightarrow>
          (st, Ack_ok None,
           [\<lparr>recipients = io_to st t, event = ''answer'', args = stamp_from c p\<rparr>]))"

text \<open>\<open>ice-candidate\<close>: to \<open>payload.to\<close> where it is truthy, else to the others in the
  room of \<open>socket.unique_id\<close> where that is truthy, else an error.\<close>

definition ice_candidate :: "string \<Rightarrow> socket \<Rightarrow> payload \<Rightarrow> server \<Rightarrow> server \<times> ack \<times> emit list" where
  "ice_candidate c sock p st =
     (let message = stamp_from c p in
      case truthy_value (payload_get p ''to'') of
        Some t \<Rightarrow>
          (st, Ack_ok None,
           [\<lparr>recipients = io_to st t, event = ''ice-candidate'', args = message\<rparr>])
      | None \<Rightarrow>
          (case truthy_value (unique_id sock) of
             Some u \<Rightarrow>
               (st, Ack_ok None,
                [\<lparr>recipients = socket_to st c u, event = ''ice-candidate'', args = message\<rparr>])
           | None \<Rightarrow> (st, Ack_error ''No target specified.'', [])))"

text \<open>The guard of \<open>admin-end-session\<close>, as the source writes it:
  \<^verbatim>\<open>socket.role !== 'admin' || !socket.unique_id || socket.unique_id !== unique_id\<close>.\<close>

definition not_authorized :: "socket \<Rightarrow> string option \<Rightarrow> bool" where
  "not_authorized sock uid =
     (role sock \<noteq> Some admin \<or> \<not> truthy (unique_id sock) \<or> unique_id sock \<noteq> uid)"

definition admin_end_session :: "string \<Rightarrow> socket \<Rightarrow> payload \<Rightarrow> bool \<Rightarrow> server \<Rightarrow> server \<times> ack \<times> emit list" where
  "admin_end_session c sock p db st =
     (case payload_get p ''unique_id'' of
        None \<Rightarrow> (st, Ack_error ''Not authorized.'', [])
      | Some u \<Rightarrow>
          if not_authorized sock (Some u) then (st, Ack_error ''Not authorized.'', [])
          else if \<not> db then (st, Ack_error ''Failed to end session.'', [])
          else
            (let st1 = st\<lparr>sessions := findOneAndUpdate_inactive (sessions st) u\<rparr>;
                 ended = \<lparr>recipients = socket_to st1 c u, event = ''session-ended'', args = []\<rparr>;
                 peers = fetchSockets st1 u;
                 st2 = peers_leave peers u st1;
                 st3 = socket_leave c u st2;
                 st4 = set_props c (sock\<lparr>unique_id := None\<rparr>) st3
             in (st4, Ack_ok None, [ended])))"

text \<open>socket.io takes a closing socket out of all its rooms before it runs the
  \<open>disconnect\<close> handler; \<open>disconnect\<close> below is the handler, \<open>on_close\<close> the whole
  of what a lost connection does.\<close>

definition disconnect :: "string \<Rightarrow> socket \<Rightarrow> bool \<Rightarrow> server \<Rightarrow> server \<times> emit list" where
  "disconnect c sock db st =
     (let (st1, out1) =
            (case (role sock, truthy_value (unique_id sock)) of
               (Some admin, Some u) \<Rightarrow>
                 if db then
                   (let st' = st\<lparr>sessions := findOneAndUpdate_inactive (sessions st) u\<rparr>
                    in (st', [\<lparr>recipients = socket_to st' c u, event = ''session-ended'',
                               args = []\<rparr>]))
                 else (st, [])
             | _ \<Rightarrow> (st, []));
          out2 =
            (case (role sock, truthy_value (unique_id sock)) of
               (Some student, Some u) \<Rightarrow>
                 [\<lparr>recipients = socket_to st1 c u, event = ''student-disconnected'',
                   args = [(''studentSocketId'', c)]\<rparr>]
             | _ \<Rightarrow> [])
      in (st1, out1 @ out2))"

definition on_close :: "string \<Rightarrow> socket \<Rightarrow> bool \<Rightarrow> server \<Rightarrow> server \<times> emit list" where
  "on_close c sock db st =
     (let (st1, out) = disconnect c sock db (leaveAll c st)
      in (st1\<lparr>sockets := (sockets st1)(c := None)\<rparr>, out))"

subsection \<open>Runs of the server\<close>

text \<open>
  The things that happen to the server. An input of a socket that is not connected, a
  connection under an id that is in use and a session created under an id that is in the
  collection do not occur (socket.io and \<open>randomUUID\<close> hand out fresh ids): \<open>handle\<close>
  is \<open>None\<close> there.
\<close>

datatype input =
    Connect string
  | Create_session string string bool
  | Admin_join string payload bool
  | Student_join string payload bool
  | Offer string payload
  | Answer string payload
  | Ice_candidate string payload
  | Admin_end_session string payload bool
  | Disconnect string bool

fun handle :: "input \<Rightarrow> server \<Rightarrow> server option" where
  "handle (Connect c) st =
     (case sockets st c of None \<Rightarrow> Some (connection c st) | Some _ \<Rightarrow> None)"
| "handle (Create_session uuid host db) st =
     (case sessions st uuid of None \<Rightarrow> Some (fst (api_session uuid host db st)) | Some _ \<Rightarrow> None)"
| "handle (Admin_join c data db) st =
     (case sockets st c of None \<Rightarrow> None | Some _ \<Rightarrow> Some (fst (admin_join c data db st)))"
| "handle (Student_join c data db) st =
     (case sockets st c of None \<Rightarrow> None | Some _ \<Rightarrow> Some (fst (student_join c data db st)))"
| "handle (Offer c p) st =
     (case sockets st c of None \<Rightarrow> None | Some _ \<Rightarrow> Some (fst (offer c p st)))"
| "handle (Answer c p) st =
     (case sockets st c of None \<Rightarrow> None | Some _ \<Rightarrow> Some (fst (answer c p st)))"
| "handle (Ice_candidate c p) st =
     (case sockets st c of None \<Rightarrow> None | Some sock \<Rightarrow> Some (fst (ice_candidate c sock p st)))"
| "handle (Admin_end_session c p db) st =
     (case sockets st c of None \<Rightarrow> None
      | Some sock \<Rightarrow> Some (fst (admin_end_session c sock p db st)))"
| "handle (Disconnect c db) st =
     (case sockets st c of None \<Rightarrow> None | Some sock \<Rightarrow> Some (fst (on_close c sock db st)))"

fun run :: "input list \<Rightarrow> server \<Rightarrow> server option" where
  "run [] st = Some st"
| "run (e # es) st = (case handle e st of None \<Rightarrow> None | Some st' \<Rightarrow> run es st')"

subsection \<open>Observations\<close>

text \<open>A socket is bound with role \<open>r\<close> to session \<open>s\<close> when the handlers have set both
  of its properties so.\<close>

definition bound_as :: "role \<Rightarrow> string \<Rightarrow> socket \<Rightarrow> bool" where
  "bound_as r s sock = (role sock = Some r \<and> unique_id sock = Some s \<and> s \<noteq> [])"

definition is_bound :: "server \<Rightarrow> role \<Rightarrow> string \<Rightarrow> string \<Rightarrow> bool" where
  "is_bound st r s c = (case sockets st c of None \<Rightarrow> False | Some sock \<Rightarrow> bound_as r s sock)"

text \<open>How many emits of event \<open>ev\<close> in \<open>out\<close> reach socket \<open>m\<close>.\<close>

definition received :: "string \<Rightarrow> string \<Rightarrow> emit list \<Rightarrow> nat" where
  "received m ev out = length (filter (\<lambda>e. m \<in> recipients e \<and> event e = ev) out)"

text \<open>Two facts that hold of every state the server reaches: a socket's \<open>unique_id\<close>
  names a session of the collection, and a room whose name is not a session id is the
  room of a connected socket, holding that socket alone.\<close>

definition bindings_exist :: "server \<Rightarrow> bool" where
  "bindings_exist st =
     (\<forall>c sock u. sockets st c = Some sock \<longrightarrow> unique_id sock = Some u \<longrightarrow> sessions st u \<noteq> None)"

definition own_rooms :: "server \<Rightarrow> bool" where
  "own_rooms st =
     (\<forall>r. sessions st r = None \<longrightarrow> rooms st r = (if sockets st r = None then {} else {r}))"


text \<open>Session \<open>s\<close> is in the collection with its active flag cleared.\<close>

definition inactive :: "server \<Rightarrow> string \<Rightarrow> bool" where
  "inactive st s = (case sessions st s of None \<Rightarrow> False | Some ses \<Rightarrow> \<not> active ses)"

subsection \<open>A small run\<close>

text \<open>One session \<open>S\<close>, a socket \<open>P\<close> that joined it as admin and a socket \<open>V\<close> that
  joined it as student; \<open>example_ended\<close> is the state after \<open>P\<close> has ended the session.\<close>

definition join_S :: payload where
  "join_S = [(''unique_id'', ''S'')]"

definition example_created :: server where
  "example_created =
     connection ''V'' (connection ''P'' (fst (api_session ''S'' ''http://host'' True init)))"

definition example_live :: server where
  "example_live =
     fst (student_join ''V'' join_S True (fst (admin_join ''P'' join_S True example_created)))"

definition example_ended :: server where
  "example_ended =
     fst (admin_end_session ''P'' \<lparr>role = Some admin, unique_id = Some ''S''\<rparr> join_S True
            example_live)"

text \<open>The same room with a second session \<open>T\<close> in the collection, and the state in which
  \<open>V\<close> has joined \<open>S\<close> as admin after \<open>P\<close>.\<close>

definition join_T :: payload where
  "join_T = [(''unique_id'', ''T'')]"

definition example_two_sessions :: server where
  "example_two_sessions = fst (api_session ''T'' ''http://host'' True example_live)"

text \<open>\<open>V\<close> bound to \<open>T\<close> while \<open>P\<close> is bound to \<open>S\<close>; and the ended room after \<open>P\<close> has
  joined \<open>S\<close> as admin once more.\<close>

definition example_rebound :: server where
  "example_rebound = fst (admin_join ''V'' join_T True example_two_sessions)"

definition example_rejoined :: server where
  "example_rejoined = fst (admin_join ''P'' join_S True example_ended)"

definition example_two_presenters :: server where
  "example_two_presenters =
     fst (admin_join ''V'' join_S True (fst (admin_join ''P'' join_S True example_created)))"

section \<open>Properties\<close>

subsection \<open>Unfolding and basic facts\<close>

lemmas chan_defs = io_to_def socket_to_def socket_join_def socket_leave_def fetchSockets_def
  peers_leave_def leaveAll_def set_props_def connection_def
lemmas store_defs = findOne_def findOne_active_def findOneAndUpdate_inactive_def
lemmas js_defs = Let_def payload_get_def truthy_def truthy_value_def stamp_from_def
lemmas handler_defs = admin_join_def student_join_def offer_def answer_def ice_candidate_def
  not_authorized_def admin_end_session_def disconnect_def on_close_def api_session_def
lemmas example_defs = join_S_def join_T_def example_created_def example_live_def example_ended_def
  example_two_sessions_def example_two_presenters_def example_rebound_def example_rejoined_def
  init_def
lemmas obs_defs = bound_as_def is_bound_def received_def

lemma stamp_from_get:
  "payload_get (stamp_from c p) k = (if k = ''from'' then Some c else payload_get p k)"
  by (simp add: payload_get_def stamp_from_def update_conv')

lemma truthy_value_Some: "truthy_value v = Some u \<longleftrightarrow> v = Some u \<and> u \<noteq> []"
  by (auto simp: truthy_value_def truthy_def split: option.splits)

lemma truthy_value_None: "truthy_value v = None \<longleftrightarrow> \<not> truthy v"
  by (auto simp: truthy_value_def truthy_def split: option.splits)

lemma not_authorized_iff:
  "not_authorized sock (Some u) \<longleftrightarrow> \<not> bound_as admin u sock"
  by (auto simp: not_authorized_def bound_as_def truthy_def split: option.splits)

lemma handle_bindings_exist:
  "handle e st = Some st' \<Longrightarrow> bindings_exist st \<Longrightarrow> bindings_exist st'"
  by (cases e)
    (auto simp: bindings_exist_def handler_defs chan_defs store_defs truthy_value_def truthy_def
      Let_def split: option.splits if_splits prod.splits role.splits)

lemma own_rooms_iff:
  "own_rooms st \<longleftrightarrow>
     (\<forall>r x. sessions st r = None \<longrightarrow> (x \<in> rooms st r \<longleftrightarrow> x = r \<and> sockets st r \<noteq> None))"
  unfolding own_rooms_def by (auto split: if_splits)

lemma handle_own_rooms:
  assumes "handle e st = Some st'" and "bindings_exist st" and "own_rooms st"
  shows "own_rooms st'"
proof (cases e)
  case (Admin_end_session c p db)
  then obtain sock where sock: "sockets st c = Some sock"
    and st': "st' = fst (admin_end_session c sock p db st)"
    using assms(1) by (auto split: option.splits)
  show ?thesis
  proof (cases "\<exists>u. payload_get p ''unique_id'' = Some u \<and> bound_as admin u sock \<and> db")
    case True
    then obtain u where u: "payload_get p ''unique_id'' = Some u" "bound_as admin u sock" "db"
      by blast
    then have "sessions st u \<noteq> None"
      using assms(2) sock by (auto simp: bindings_exist_def bound_as_def)
    then show ?thesis
      using assms(3) u st' sock
      by (auto simp: own_rooms_iff admin_end_session_def not_authorized_iff chan_defs
          store_defs Let_def)
  next
    case False
    then have "st' = st"
      using st' by (auto simp: admin_end_session_def not_authorized_iff split: option.splits)
    then show ?thesis using assms(3) by simp
  qed
next
  case (Disconnect c db)
  then obtain sock where sock: "sockets st c = Some sock"
    and st': "st' = fst (on_close c sock db st)"
    using assms(1) by (auto split: option.splits)
  have rooms': "rooms st' = (\<lambda>r. rooms st r - {c})"
    and sockets': "sockets st' = (sockets st)(c := None)"
    and sessions': "\<And>r. sessions st' r = None \<longleftrightarrow> sessions st r = None"
    using st'
    by (auto simp: on_close_def disconnect_def leaveAll_def store_defs Let_def
        split: option.splits role.splits prod.splits if_splits)
  show ?thesis
    using assms(3) sock unfolding own_rooms_iff rooms' sockets' sessions' by auto
qed (use assms in \<open>auto simp: own_rooms_iff bindings_exist_def handler_defs chan_defs store_defs
      truthy_value_def truthy_def Let_def
      split: option.splits if_splits prod.splits role.splits\<close>)

lemma handle_inactive:
  "handle e st = Some st' \<Longrightarrow> inactive st s \<Longrightarrow> inactive st' s"
  by (cases e)
    (auto simp: inactive_def handler_defs chan_defs store_defs
      truthy_value_def truthy_def Let_def
      split: option.splits if_splits prod.splits role.splits)

lemma run_inactive:
  "run es st = Some st' \<Longrightarrow> inactive st s \<Longrightarrow> inactive st' s"
  by (induction es arbitrary: st) (auto split: option.splits dest: handle_inactive)

lemma run_invariants:
  "run es st = Some st' \<Longrightarrow> bindings_exist st \<and> own_rooms st
     \<Longrightarrow> bindings_exist st' \<and> own_rooms st'"
  by (induction es arbitrary: st)
     (auto split: option.splits dest: handle_bindings_exist handle_own_rooms)

lemma init_invariants: "bindings_exist init \<and> own_rooms init"
  by (simp add: bindings_exist_def own_rooms_def init_def)

lemma reachable_invariants:
  "run es init = Some st \<Longrightarrow> bindings_exist st \<and> own_rooms st"
  using run_invariants init_invariants by blast

lemmas eval_defs = example_defs handler_defs chan_defs store_defs js_defs obs_defs

lemma example_live_reachable:
  "run [Create_session ''S'' ''http://host'' True, Connect ''P'', Connect ''V'',
        Admin_join ''P'' join_S True, Student_join ''V'' join_S True] init = Some example_live"
  by (simp add: eval_defs)

lemma example_live_P:
  "sockets example_live ''P'' = Some \<lparr>role = Some admin, unique_id = Some ''S''\<rparr>"
  by (simp add: eval_defs)

lemma example_live_V:
  "sockets example_live ''V'' = Some \<lparr>role = Some student, unique_id = Some ''S''\<rparr>"
  by (simp add: eval_defs)

lemma example_live_room: "rooms example_live ''S'' = {''P'', ''V''}"
  by (auto simp: eval_defs)





lemma received_single:
  "received m ev [\<lparr>recipients = R, event = ev', args = a\<rparr>] = (if m \<in> R \<and> ev' = ev then 1 else 0)"
  by (simp add: received_def)

lemma on_close_admin:
  assumes "bound_as admin s sock"
  shows "on_close c sock db st =
           (if db then
              (st\<lparr>rooms := (\<lambda>r. rooms st r - {c}),
                  sessions := findOneAndUpdate_inactive (sessions st) s,
                  sockets := (sockets st)(c := None)\<rparr>,
               [\<lparr>recipients = rooms st s - {c}, event = ''session-ended'', args = []\<rparr>])
            else
              (st\<lparr>rooms := (\<lambda>r. rooms st r - {c}), sockets := (sockets st)(c := None)\<rparr>, []))"
  using assms
  by (auto simp: on_close_def disconnect_def bound_as_def truthy_value_def truthy_def
      leaveAll_def socket_to_def Let_def)

lemma reachable_room:
  assumes "run es init = Some st" and "sessions st t = None"
  shows "rooms st t = (if sockets st t = None then {} else {t})"
  using reachable_invariants [OF assms(1)] assms(2) by (simp add: own_rooms_def)

lemma offer_result:
  "offer c p st =
     (case truthy_value (payload_get p ''to'') of
        None \<Rightarrow> (st, Ack_error ''Missing target socket id.'', [])
      | Some t \<Rightarrow> (st, Ack_ok None,
                   [\<lparr>recipients = rooms st t, event = ''offer'', args = stamp_from c p\<rparr>]))"
  by (simp add: offer_def io_to_def split: option.splits)

lemma answer_result:
  "answer c p st =
     (case truthy_value (payload_get p ''to'') of
        None \<Rightarrow> (st, Ack_error ''Missing target socket id.'', [])
      | Some t \<Rightarrow> (st, Ack_ok None,
                   [\<lparr>recipients = rooms st t, event = ''answer'', args = stamp_from c p\<rparr>]))"
  by (simp add: answer_def io_to_def split: option.splits)




lemma example_created_reachable:
  "run [Create_session ''S'' ''http://host'' True, Connect ''P'', Connect ''V''] init
     = Some example_created"
  by (simp add: eval_defs)

subsection \<open>Joining a session that was ended\<close>

text \<open>
  C1 (as amended). In every state the server reaches, once \<open>admin-end-session\<close> for
  session \<open>s\<close> has been acknowledged ok, every later \<open>student-join\<close> for \<open>s\<close> fails,
  whatever happened in between (the collection never holds two sessions under one id):
  with \<open>Session not found or inactive.\<close> (NotFound) when the lookup of the store returns,
  and with \<open>Unable to join session.\<close> (StoreError) when the lookup throws. The state is
  unchanged and nothing is emitted.
\<close>

theorem viewer_join_after_end_session:
  assumes "run es0 init = Some st"
    and "sockets st c = Some sock"
    and "payload_get p ''unique_id'' = Some s"
    and "admin_end_session c sock p db st = (st1, Ack_ok x, out)"
    and "run es st1 = Some st2"
    and "payload_get q ''unique_id'' = Some s"
  shows "student_join v q db' st2 =
           (st2, Ack_error (if db' then ''Session not found or inactive.''
                            else ''Unable to join session.''), [])"
proof -
  have auth: "bound_as admin s sock" and db: db
    using assms(3,4)
    by (auto simp: admin_end_session_def not_authorized_iff split: if_splits)
  have "sessions st s \<noteq> None"
    using reachable_invariants [OF assms(1)] assms(2) auth
    by (auto simp: bindings_exist_def bound_as_def)
  then have "inactive st1 s"
    using assms(3,4) auth db
    by (auto simp: admin_end_session_def not_authorized_iff inactive_def chan_defs store_defs Let_def)
  then have "inactive st2 s"
    using run_inactive [OF assms(5)] by simp
  moreover have "s \<noteq> []" using auth by (simp add: bound_as_def)
  ultimately show ?thesis
    using assms(6)
    by (auto simp: student_join_def inactive_def findOne_active_def truthy_value_def truthy_def
        split: option.splits)
qed

text \<open>A later join is not always answered with NotFound: in the small run, after \<open>P\<close>
  has ended \<open>S\<close>, the join of \<open>V\<close> during a store failure is answered with the store
  error.\<close>

theorem viewer_join_after_end_session_store_error:
  "run [Create_session ''S'' ''http://host'' True, Connect ''P'', Connect ''V'',
        Admin_join ''P'' join_S True, Student_join ''V'' join_S True] init = Some example_live
   \<and> sockets example_live ''P'' = Some \<lparr>role = Some admin, unique_id = Some ''S''\<rparr>
   \<and> fst (snd (admin_end_session ''P'' \<lparr>role = Some admin, unique_id = Some ''S''\<rparr> join_S True
                 example_live)) = Ack_ok None
   \<and> fst (admin_end_session ''P'' \<lparr>role = Some admin, unique_id = Some ''S''\<rparr> join_S True
            example_live) = example_ended
   \<and> fst (snd (student_join ''V'' join_S False example_ended))
       = Ack_error ''Unable to join session.''
   \<and> fst (snd (student_join ''V'' join_S False example_ended))
       \<noteq> Ack_error ''Session not found or inactive.''"
  by (simp add: eval_defs)

theorem viewer_join_after_end_session_witness:
  "run [Create_session ''S'' ''http://host'' True, Connect ''P'', Connect ''V'',
        Admin_join ''P'' join_S True, Student_join ''V'' join_S True] init = Some example_live
   \<and> admin_end_session ''P'' \<lparr>role = Some admin, unique_id = Some ''S''\<rparr> join_S True example_live
       = (example_ended, Ack_ok None,
          [\<lparr>recipients = {''V''}, event = ''session-ended'', args = []\<rparr>])
   \<and> run [Connect ''W'', Admin_join ''P'' join_S True] example_ended
       = Some (fst (admin_join ''P'' join_S True (connection ''W'' example_ended)))
   \<and> student_join ''W'' join_S True (fst (admin_join ''P'' join_S True (connection ''W'' example_ended)))
       = (fst (admin_join ''P'' join_S True (connection ''W'' example_ended)),
          Ack_error ''Session not found or inactive.'', [])
   \<and> student_join ''W'' join_S False (fst (admin_join ''P'' join_S True (connection ''W'' example_ended)))
       = (fst (admin_join ''P'' join_S True (connection ''W'' example_ended)),
          Ack_error ''Unable to join session.'', [])"
proof -
  have g: "payload_get join_S ''unique_id'' = Some ''S''"
    by (simp add: payload_get_def join_S_def)
  have e: "admin_end_session ''P'' \<lparr>role = Some admin, unique_id = Some ''S''\<rparr> join_S True
             example_live
           = (example_ended, Ack_ok None,
              [\<lparr>recipients = {''V''}, event = ''session-ended'', args = []\<rparr>])"
    by (auto simp: eval_defs)
  have r: "run [Connect ''W'', Admin_join ''P'' join_S True] example_ended
           = Some (fst (admin_join ''P'' join_S True (connection ''W'' example_ended)))"
    by (simp add: eval_defs)
  show ?thesis
    using example_live_reachable e r
      viewer_join_after_end_session [OF example_live_reachable example_live_P g e r g,
        of "''W''" True]
      viewer_join_after_end_session [OF example_live_reachable example_live_P g e r g,
        of "''W''" False]
    by simp
qed

subsection \<open>Bindings of a socket\<close>







subsection \<open>Ending a session\<close>

text \<open>
  C4. When the requester is bound as admin to the session it names and the update of the
  store throws, \<open>admin-end-session\<close> answers \<open>Failed to end session.\<close> (StoreError),
  emits nothing and leaves the whole state as it was: the collection, every socket's
  properties and every room. The same request succeeds once the store answers again.
\<close>

theorem end_session_store_failure:
  assumes "bound_as admin s sock" and "payload_get p ''unique_id'' = Some s"
  shows "admin_end_session c sock p False st = (st, Ack_error ''Failed to end session.'', [])
       \<and> fst (snd (admin_end_session c sock p True st)) = Ack_ok None"
  using assms by (simp add: admin_end_session_def not_authorized_iff Let_def)

theorem end_session_store_failure_witness:
  "bound_as admin ''S'' \<lparr>role = Some admin, unique_id = Some ''S''\<rparr>
   \<and> payload_get join_S ''unique_id'' = Some ''S''
   \<and> admin_end_session ''P'' \<lparr>role = Some admin, unique_id = Some ''S''\<rparr> join_S False example_live
       = (example_live, Ack_error ''Failed to end session.'', [])
   \<and> rooms example_live ''S'' = {''P'', ''V''}
   \<and> fst (snd (admin_end_session ''P'' \<lparr>role = Some admin, unique_id = Some ''S''\<rparr> join_S True
                  example_live)) = Ack_ok None"
proof -
  have b: "bound_as admin ''S'' \<lparr>role = Some admin, unique_id = Some ''S''\<rparr>"
    by (simp add: bound_as_def)
  have g: "payload_get join_S ''unique_id'' = Some ''S''"
    by (simp add: payload_get_def join_S_def)
  show ?thesis
    using b g example_live_room end_session_store_failure [OF b g, of "''P''" example_live]
    by simp
qed

text \<open>
  C8. \<open>admin-end-session\<close> answers \<open>Not authorized.\<close> exactly when the requesting socket
  is not bound as admin to the session id of the request; it then emits nothing and leaves
  the whole state unchanged (active flags, socket properties and rooms).
\<close>

theorem end_session_unauthorized:
  "(fst (snd (admin_end_session c sock p db st)) = Ack_error ''Not authorized.''
      \<longleftrightarrow> \<not> (\<exists>s. payload_get p ''unique_id'' = Some s \<and> bound_as admin s sock))
   \<and> (\<not> (\<exists>s. payload_get p ''unique_id'' = Some s \<and> bound_as admin s sock)
      \<longrightarrow> admin_end_session c sock p db st = (st, Ack_error ''Not authorized.'', []))"
proof (cases "payload_get p ''unique_id''")
  case None
  then show ?thesis by (simp add: admin_end_session_def)
next
  case (Some u)
  show ?thesis
  proof (cases "bound_as admin u sock")
    case True
    then have "fst (snd (admin_end_session c sock p db st)) \<noteq> Ack_error ''Not authorized.''"
      using Some by (simp add: admin_end_session_def not_authorized_iff Let_def)
    then show ?thesis using Some True by simp
  next
    case False
    then have "admin_end_session c sock p db st = (st, Ack_error ''Not authorized.'', [])"
      using Some by (simp add: admin_end_session_def not_authorized_iff)
    then show ?thesis using Some False by simp
  qed
qed

theorem end_session_unauthorized_witness:
  "\<not> (\<exists>s. payload_get join_S ''unique_id'' = Some s
           \<and> bound_as admin s \<lparr>role = Some student, unique_id = Some ''S''\<rparr>)
   \<and> sockets example_live ''V'' = Some \<lparr>role = Some student, unique_id = Some ''S''\<rparr>
   \<and> admin_end_session ''V'' \<lparr>role = Some student, unique_id = Some ''S''\<rparr> join_S True example_live
       = (example_live, Ack_error ''Not authorized.'', [])
   \<and> map_option active (sessions example_live ''S'') = Some True"
proof -
  have h: "\<not> (\<exists>s. payload_get join_S ''unique_id'' = Some s
           \<and> bound_as admin s \<lparr>role = Some student, unique_id = Some ''S''\<rparr>)"
    by (simp add: bound_as_def)
  have a: "map_option active (sessions example_live ''S'') = Some True"
    by (simp add: eval_defs)
  show ?thesis
    using h a example_live_V
      end_session_unauthorized [of "''V''" "\<lparr>role = Some student, unique_id = Some ''S''\<rparr>"
        join_S True example_live]
    by simp
qed




subsection \<open>Losing the presenter's connection\<close>

text \<open>
  C5 (as amended). When a socket bound as admin to session \<open>s\<close> disconnects and the update
  of the store returns, every socket that is in room \<open>s\<close> after the disconnect receives
  exactly one \<open>session-ended\<close>, no other socket receives one, and the session is
  inactive in the store. When the update of the store throws, the error is only logged:
  nothing is emitted and the collection is left as it was.
\<close>

theorem presenter_disconnect:
  assumes "sockets st c = Some sock" and "bound_as admin s sock"
  shows "(\<forall>m. received m ''session-ended'' (snd (on_close c sock True st))
               = (if m \<in> rooms (fst (on_close c sock True st)) s then 1 else 0))
       \<and> rooms (fst (on_close c sock True st)) s = rooms st s - {c}
       \<and> findOne_active (sessions (fst (on_close c sock True st))) s = None
       \<and> (\<forall>ses. sessions st s = Some ses \<longrightarrow>
              sessions (fst (on_close c sock True st)) s = Some (ses\<lparr>active := False\<rparr>))
       \<and> snd (on_close c sock False st) = []
       \<and> sessions (fst (on_close c sock False st)) = sessions st"
  using assms(2)
  by (auto simp: on_close_admin received_single store_defs split: option.splits)

text \<open>With the store failing, the viewer that remains in the room hears nothing and the
  session stays active.\<close>

theorem presenter_disconnect_store_failure:
  "run [Create_session ''S'' ''http://host'' True, Connect ''P'', Connect ''V'',
        Admin_join ''P'' join_S True, Student_join ''V'' join_S True] init = Some example_live
   \<and> sockets example_live ''P'' = Some \<lparr>role = Some admin, unique_id = Some ''S''\<rparr>
   \<and> ''V'' \<in> rooms (fst (on_close ''P'' \<lparr>role = Some admin, unique_id = Some ''S''\<rparr> False
                           example_live)) ''S''
   \<and> received ''V'' ''session-ended''
        (snd (on_close ''P'' \<lparr>role = Some admin, unique_id = Some ''S''\<rparr> False example_live)) = 0
   \<and> map_option active
        (sessions (fst (on_close ''P'' \<lparr>role = Some admin, unique_id = Some ''S''\<rparr> False
                          example_live)) ''S'') = Some True"
  by (simp add: eval_defs)

theorem presenter_disconnect_witness:
  "sockets example_live ''P'' = Some \<lparr>role = Some admin, unique_id = Some ''S''\<rparr>
   \<and> bound_as admin ''S'' \<lparr>role = Some admin, unique_id = Some ''S''\<rparr>
   \<and> rooms (fst (on_close ''P'' \<lparr>role = Some admin, unique_id = Some ''S''\<rparr> True example_live)) ''S''
       = {''V''}
   \<and> received ''V'' ''session-ended''
        (snd (on_close ''P'' \<lparr>role = Some admin, unique_id = Some ''S''\<rparr> True example_live)) = 1
   \<and> received ''P'' ''session-ended''
        (snd (on_close ''P'' \<lparr>role = Some admin, unique_id = Some ''S''\<rparr> True example_live)) = 0
   \<and> findOne_active
        (sessions (fst (on_close ''P'' \<lparr>role = Some admin, unique_id = Some ''S''\<rparr> True
                          example_live))) ''S'' = None
   \<and> snd (on_close ''P'' \<lparr>role = Some admin, unique_id = Some ''S''\<rparr> False example_live) = []"
proof -
  have b: "bound_as admin ''S'' \<lparr>role = Some admin, unique_id = Some ''S''\<rparr>"
    by (simp add: bound_as_def)
  have r: "rooms example_live ''S'' - {''P''} = {''V''}"
    using example_live_room by auto
  show ?thesis
    using example_live_P b r presenter_disconnect [OF example_live_P b]
    by simp
qed

subsection \<open>Relaying offers and answers\<close>

text \<open>
  C6 (as amended). In every state the server reaches, an \<open>offer\<close> or \<open>answer\<close> request
  fails with \<open>Missing target socket id.\<close> (MissingTarget) exactly when its \<open>to\<close> is absent
  or empty. Otherwise it is acknowledged ok and its payload, with \<open>from\<close> set to the
  sender's id and every other property kept, is emitted to the room named by \<open>to\<close>:
  to the one socket of that id when \<open>to\<close> is the id of a connected socket and not a
  session id; to no socket when \<open>to\<close> is neither (the target has gone); and to every
  socket in the room of the session when \<open>to\<close> is a session id.
\<close>

theorem directed_forward:
  assumes "run es init = Some st"
  shows "(fst (snd (offer c p st)) = Ack_error ''Missing target socket id.''
            \<longleftrightarrow> \<not> truthy (payload_get p ''to''))
       \<and> (fst (snd (answer c p st)) = Ack_error ''Missing target socket id.''
            \<longleftrightarrow> \<not> truthy (payload_get p ''to''))
       \<and> (\<forall>t. payload_get p ''to'' = Some t \<and> t \<noteq> [] \<longrightarrow>
            offer c p st =
              (st, Ack_ok None,
               [\<lparr>recipients = (if sessions st t \<noteq> None then rooms st t
                                else if sockets st t \<noteq> None then {t} else {}),
                 event = ''offer'', args = stamp_from c p\<rparr>])
          \<and> answer c p st =
              (st, Ack_ok None,
               [\<lparr>recipients = (if sessions st t \<noteq> None then rooms st t
                                else if sockets st t \<noteq> None then {t} else {}),
                 event = ''answer'', args = stamp_from c p\<rparr>])
          \<and> payload_get (stamp_from c p) ''from'' = Some c
          \<and> (\<forall>k. k \<noteq> ''from'' \<longrightarrow> payload_get (stamp_from c p) k = payload_get p k))"
proof -
  have "rooms st t = (if sessions st t \<noteq> None then rooms st t
                      else if sockets st t \<noteq> None then {t} else {})" for t
    using reachable_room [OF assms, of t] by auto
  then show ?thesis
    by (auto simp: offer_result answer_result truthy_value_def truthy_def stamp_from_get
        split: option.splits)
qed

text \<open>An offer whose \<open>to\<close> is the session id reaches both sockets of the room, the
  sender among them.\<close>

theorem offer_to_session_room:
  "run [Create_session ''S'' ''http://host'' True, Connect ''P'', Connect ''V'',
        Admin_join ''P'' join_S True, Student_join ''V'' join_S True] init = Some example_live
   \<and> payload_get [(''to'', ''S''), (''sdp'', ''x'')] ''to'' = Some ''S''
   \<and> fst (snd (offer ''P'' [(''to'', ''S''), (''sdp'', ''x'')] example_live)) = Ack_ok None
   \<and> map recipients (snd (snd (offer ''P'' [(''to'', ''S''), (''sdp'', ''x'')] example_live)))
       = [{''P'', ''V''}]
   \<and> map recipients (snd (snd (answer ''V'' [(''to'', ''S''), (''sdp'', ''x'')] example_live)))
       = [{''P'', ''V''}]"
  using example_live_reachable example_live_room
  by (simp add: offer_result answer_result js_defs)

theorem directed_forward_witness:
  "run [Create_session ''S'' ''http://host'' True, Connect ''P'', Connect ''V'',
        Admin_join ''P'' join_S True, Student_join ''V'' join_S True] init = Some example_live
   \<and> offer ''P'' [(''to'', ''V''), (''sdp'', ''x'')] example_live
       = (example_live, Ack_ok None,
          [\<lparr>recipients = {''V''}, event = ''offer'',
            args = [(''to'', ''V''), (''sdp'', ''x''), (''from'', ''P'')]\<rparr>])
   \<and> answer ''V'' [(''to'', ''gone''), (''sdp'', ''x'')] example_live
       = (example_live, Ack_ok None,
          [\<lparr>recipients = {}, event = ''answer'',
            args = [(''to'', ''gone''), (''sdp'', ''x''), (''from'', ''V'')]\<rparr>])
   \<and> fst (snd (offer ''V'' [(''sdp'', ''x'')] example_live))
       = Ack_error ''Missing target socket id.''"
proof -
  have s: "sessions example_live ''V'' = None" "sessions example_live ''gone'' = None"
    "sockets example_live ''gone'' = None"
    by (simp_all add: eval_defs)
  have p: "payload_get [(''to'', ''V''), (''sdp'', ''x'')] ''to'' = Some ''V''"
    "payload_get [(''to'', ''gone''), (''sdp'', ''x'')] ''to'' = Some ''gone''"
    "\<not> truthy (payload_get [(''sdp'', ''x'')] ''to'')"
    by (simp_all add: payload_get_def truthy_def)
  have f: "stamp_from ''P'' [(''to'', ''V''), (''sdp'', ''x'')]
             = [(''to'', ''V''), (''sdp'', ''x''), (''from'', ''P'')]"
    "stamp_from ''V'' [(''to'', ''gone''), (''sdp'', ''x'')]
             = [(''to'', ''gone''), (''sdp'', ''x''), (''from'', ''V'')]"
    by (simp_all add: stamp_from_def)
  show ?thesis
    using example_live_reachable
      directed_forward [OF example_live_reachable, of "''P''" "[(''to'', ''V''), (''sdp'', ''x'')]"]
      directed_forward [OF example_live_reachable, of "''V''" "[(''to'', ''gone''), (''sdp'', ''x'')]"]
      directed_forward [OF example_live_reachable, of "''V''" "[(''sdp'', ''x'')]"]
    by (simp add: s p f example_live_V)
qed

text \<open>
  C9. Neither handler reads the properties of the sender. In every state the server
  reaches, with \<open>to\<close> the id of a connected socket (and no session id), an \<open>offer\<close> or
  \<open>answer\<close> is acknowledged ok and emitted to that socket, whatever role and session the
  sender or anyone else is bound to; what is emitted is the payload of the sender with
  \<open>from\<close> set to the sender's id and every other property as the sender gave it.
\<close>

theorem forward_ignores_sender_binding:
  assumes "run es init = Some st"
    and "sockets st t \<noteq> None" and "sessions st t = None"
    and "payload_get p ''to'' = Some t" and "t \<noteq> []"
  shows "(\<forall>b. offer c p (st\<lparr>sockets := b\<rparr>)
               = (st\<lparr>sockets := b\<rparr>, Ack_ok None,
                  [\<lparr>recipients = {t}, event = ''offer'', args = stamp_from c p\<rparr>])
            \<and> answer c p (st\<lparr>sockets := b\<rparr>)
               = (st\<lparr>sockets := b\<rparr>, Ack_ok None,
                  [\<lparr>recipients = {t}, event = ''answer'', args = stamp_from c p\<rparr>])
            \<and> payload_get (stamp_from c p) ''from'' = Some c)
       \<and> (\<forall>k. k \<noteq> ''from'' \<longrightarrow> payload_get (stamp_from c p) k = payload_get p k)"
  using reachable_room [OF assms(1,3)] assms(2,4,5)
  by (simp add: offer_result answer_result truthy_value_def truthy_def stamp_from_get)

theorem forward_ignores_sender_binding_witness:
  "run [Create_session ''S'' ''http://host'' True, Connect ''P'', Connect ''V''] init
     = Some example_created
   \<and> sockets example_created ''V'' = Some \<lparr>role = None, unique_id = None\<rparr>
   \<and> offer ''V'' [(''to'', ''P''), (''sdp'', ''x'')] example_created
       = (example_created, Ack_ok None,
          [\<lparr>recipients = {''P''}, event = ''offer'',
            args = [(''to'', ''P''), (''sdp'', ''x''), (''from'', ''V'')]\<rparr>])
   \<and> run [Create_session ''S'' ''http://host'' True, Connect ''P'', Connect ''V'',
          Admin_join ''P'' join_S True, Student_join ''V'' join_S True,
          Create_session ''T'' ''http://host'' True, Admin_join ''V'' join_T True] init
       = Some example_rebound
   \<and> sockets example_rebound ''V'' = Some \<lparr>role = Some admin, unique_id = Some ''T''\<rparr>
   \<and> sockets example_rebound ''P'' = Some \<lparr>role = Some admin, unique_id = Some ''S''\<rparr>
   \<and> answer ''V'' [(''sdp'', ''y''), (''from'', ''P''), (''to'', ''P'')] example_rebound
       = (example_rebound, Ack_ok None,
          [\<lparr>recipients = {''P''}, event = ''answer'',
            args = [(''sdp'', ''y''), (''from'', ''V''), (''to'', ''P'')]\<rparr>])
   \<and> payload_get (stamp_from ''V'' [(''sdp'', ''y''), (''from'', ''P''), (''to'', ''P'')]) ''sdp''
       = Some ''y''"
proof -
  have c: "sockets example_created ''P'' \<noteq> None" "sessions example_created ''P'' = None"
    "sockets example_created ''V'' = Some \<lparr>role = None, unique_id = None\<rparr>"
    by (simp_all add: eval_defs)
  have r: "run [Create_session ''S'' ''http://host'' True, Connect ''P'', Connect ''V'',
          Admin_join ''P'' join_S True, Student_join ''V'' join_S True,
          Create_session ''T'' ''http://host'' True, Admin_join ''V'' join_T True] init
       = Some example_rebound"
    by (simp add: eval_defs)
  have d: "sockets example_rebound ''P'' \<noteq> None" "sessions example_rebound ''P'' = None"
    "sockets example_rebound ''V'' = Some \<lparr>role = Some admin, unique_id = Some ''T''\<rparr>"
    "sockets example_rebound ''P'' = Some \<lparr>role = Some admin, unique_id = Some ''S''\<rparr>"
    by (simp_all add: eval_defs)
  have p: "payload_get [(''to'', ''P''), (''sdp'', ''x'')] ''to'' = Some ''P''" "''P'' \<noteq> []"
    by (simp_all add: payload_get_def)
  have q: "payload_get [(''sdp'', ''y''), (''from'', ''P''), (''to'', ''P'')] ''to'' = Some ''P''"
    "payload_get [(''sdp'', ''y''), (''from'', ''P''), (''to'', ''P'')] ''sdp'' = Some ''y''"
    by (simp_all add: payload_get_def)
  have f: "stamp_from ''V'' [(''to'', ''P''), (''sdp'', ''x'')]
             = [(''to'', ''P''), (''sdp'', ''x''), (''from'', ''V'')]"
    "stamp_from ''V'' [(''sdp'', ''y''), (''from'', ''P''), (''to'', ''P'')]
             = [(''sdp'', ''y''), (''from'', ''V''), (''to'', ''P'')]"
    by (simp_all add: stamp_from_def)
  note t1 = forward_ignores_sender_binding [OF example_created_reachable c(1,2) p, of "''V''"]
  note t2 = forward_ignores_sender_binding [OF r d(1,2) q(1) p(2), of "''V''"]
  have o: "offer ''V'' [(''to'', ''P''), (''sdp'', ''x'')]
             (example_created\<lparr>sockets := sockets example_created\<rparr>)
           = (example_created\<lparr>sockets := sockets example_created\<rparr>, Ack_ok None,
              [\<lparr>recipients = {''P''}, event = ''offer'',
                args = stamp_from ''V'' [(''to'', ''P''), (''sdp'', ''x'')]\<rparr>])"
    using t1 by blast
  have a: "answer ''V'' [(''sdp'', ''y''), (''from'', ''P''), (''to'', ''P'')]
             (example_rebound\<lparr>sockets := sockets example_rebound\<rparr>)
           = (example_rebound\<lparr>sockets := sockets example_rebound\<rparr>, Ack_ok None,
              [\<lparr>recipients = {''P''}, event = ''answer'',
                args = stamp_from ''V'' [(''sdp'', ''y''), (''from'', ''P''), (''to'', ''P'')]\<rparr>])"
    using t2 by blast
  have k: "payload_get (stamp_from ''V'' [(''sdp'', ''y''), (''from'', ''P''), (''to'', ''P'')])
             ''sdp'' = Some ''y''"
    using t2 q(2) by simp
  show ?thesis
    using example_created_reachable c(3) r d(3,4) o a k
    by (simp add: f)
qed

subsection \<open>Relaying ICE candidates to the room\<close>

text \<open>
  C7. An \<open>ice-candidate\<close> request without a target: when the sender's \<open>unique_id\<close> is set,
  the payload of the sender, with \<open>from\<close> set to the sender's id and every other property
  (the candidate among them) as the sender gave it, is emitted to exactly the other
  members of the room of that \<open>unique_id\<close> and the request is acknowledged ok; when the
  sender has no \<open>unique_id\<close>, the request fails with \<open>No target specified.\<close> (Unbound) and
  nothing is emitted.
\<close>

theorem ice_candidate_room_broadcast:
  assumes "\<not> truthy (payload_get p ''to'')"
  shows "(unique_id sock = Some u \<and> u \<noteq> [] \<longrightarrow>
            ice_candidate c sock p st =
              (st, Ack_ok None,
               [\<lparr>recipients = rooms st u - {c}, event = ''ice-candidate'', args = stamp_from c p\<rparr>])
            \<and> payload_get (stamp_from c p) ''from'' = Some c)
       \<and> (\<not> truthy (unique_id sock) \<longrightarrow>
            ice_candidate c sock p st = (st, Ack_error ''No target specified.'', []))
       \<and> (\<forall>k. k \<noteq> ''from'' \<longrightarrow> payload_get (stamp_from c p) k = payload_get p k)"
  using assms
  by (auto simp: ice_candidate_def truthy_value_def truthy_def socket_to_def stamp_from_get
      split: option.splits)

theorem ice_candidate_room_broadcast_witness:
  "\<not> truthy (payload_get [(''candidate'', ''k''), (''sdpMid'', ''0'')] ''to'')
   \<and> ice_candidate ''V'' \<lparr>role = Some student, unique_id = Some ''S''\<rparr>
        [(''candidate'', ''k''), (''sdpMid'', ''0'')] example_live
       = (example_live, Ack_ok None,
          [\<lparr>recipients = {''P''}, event = ''ice-candidate'',
            args = [(''candidate'', ''k''), (''sdpMid'', ''0''), (''from'', ''V'')]\<rparr>])
   \<and> payload_get (stamp_from ''V'' [(''candidate'', ''k''), (''sdpMid'', ''0'')]) ''candidate''
       = Some ''k''
   \<and> \<not> truthy (payload_get [(''from'', ''P''), (''candidate'', ''j'')] ''to'')
   \<and> ice_candidate ''P'' \<lparr>role = Some admin, unique_id = Some ''S''\<rparr>
        [(''from'', ''P''), (''candidate'', ''j'')] example_live
       = (example_live, Ack_ok None,
          [\<lparr>recipients = {''V''}, event = ''ice-candidate'',
            args = [(''from'', ''P''), (''candidate'', ''j'')]\<rparr>])
   \<and> ice_candidate ''V'' \<lparr>role = None, unique_id = None\<rparr>
        [(''candidate'', ''k''), (''sdpMid'', ''0'')] example_created
       = (example_created, Ack_error ''No target specified.'', [])"
proof -
  have h: "\<not> truthy (payload_get [(''candidate'', ''k''), (''sdpMid'', ''0'')] ''to'')"
    "\<not> truthy (payload_get [(''from'', ''P''), (''candidate'', ''j'')] ''to'')"
    by (simp_all add: truthy_def payload_get_def)
  have r: "rooms example_live ''S'' - {''V''} = {''P''}"
    "rooms example_live ''S'' - {''P''} = {''V''}"
    using example_live_room by auto
  have s: "stamp_from ''V'' [(''candidate'', ''k''), (''sdpMid'', ''0'')]
             = [(''candidate'', ''k''), (''sdpMid'', ''0''), (''from'', ''V'')]"
    "stamp_from ''P'' [(''from'', ''P''), (''candidate'', ''j'')]
             = [(''from'', ''P''), (''candidate'', ''j'')]"
    by (simp_all add: stamp_from_def)
  have c: "payload_get [(''candidate'', ''k''), (''sdpMid'', ''0'')] ''candidate'' = Some ''k''"
    by (simp add: payload_get_def)
  note t1 = ice_candidate_room_broadcast [OF h(1),
        of "\<lparr>role = Some student, unique_id = Some ''S''\<rparr>" "''S''" "''V''" example_live]
  have k: "payload_get (stamp_from ''V'' [(''candidate'', ''k''), (''sdpMid'', ''0'')])
             ''candidate'' = Some ''k''"
    using t1 c by simp
  show ?thesis
    using h t1 k
      ice_candidate_room_broadcast [OF h(2),
        of "\<lparr>role = Some admin, unique_id = Some ''S''\<rparr>" "''S''" "''P''" example_live]
      ice_candidate_room_broadcast [OF h(1),
        of "\<lparr>role = None, unique_id = None\<rparr>" "''S''" "''V''" example_created]
    by (simp add: r s truthy_def)
qed

end
